theory Spec2Isabelle
  imports Complex_Main
begin

section \<open>Token visibility: a model of the range, line-of-sight and area tests\<close>

text \<open>
  The development follows \<^verbatim>\<open>src/scripts/module.js\<close> (the visibility wrappers, from
  \<^verbatim>\<open>elevatePoints\<close> to \<^verbatim>\<open>constrainedTokenShape\<close>).

  JavaScript numbers are modelled as real numbers: arithmetic is exact and there is no
  \<^verbatim>\<open>NaN\<close>. The two places where the script can meet a value that is not a finite number
  are written out: a test point whose \<^verbatim>\<open>z\<close> is still undefined, and a wall elevation
  bound that is infinite.

  Every function of the script that draws, logs or calls into the host returns, next to
  its result, the list of those effects in the order in which the script performs them.
\<close>

subsection \<open>Numbers, points, shapes\<close>

text \<open>\<^verbatim>\<open>export const EPSILON = 1e-08\<close> (const.js).\<close>

definition EPSILON :: real where
  "EPSILON = 1 / 10 ^ 8"

text \<open>
  Modelled from the spec: \<^verbatim>\<open>Number.prototype.almostEqual\<close> is a primitive of the host and
  is not under src/. The spec gives \<^verbatim>\<open>almost_equal(a, b, epsilon=1e-8)\<close>; the two numbers
  are almost equal when they differ by less than epsilon.
\<close>

definition almostEqual :: "real \<Rightarrow> real \<Rightarrow> bool" where
  "almostEqual a b = (\<bar>a - b\<bar> < EPSILON)"

text \<open>A 2D point \<^verbatim>\<open>{x, y}\<close>, and a test point \<^verbatim>\<open>{x, y, z}\<close> whose \<^verbatim>\<open>z\<close> may be undefined.\<close>

record point =
  px :: real
  py :: real

record point3d = point +
  pz :: "real option"

text \<open>
  \<^verbatim>\<open>PIXI.Rectangle\<close>: \<^verbatim>\<open>x\<close>, \<^verbatim>\<open>y\<close>, \<^verbatim>\<open>width\<close>, \<^verbatim>\<open>height\<close>, with the derived edges
  \<^verbatim>\<open>left\<close>, \<^verbatim>\<open>right\<close>, \<^verbatim>\<open>top\<close>, \<^verbatim>\<open>bottom\<close>.
\<close>

record rectangle =
  rx :: real
  ry :: real
  width :: real
  height :: real

definition left :: "rectangle \<Rightarrow> real" where
  "left r = rx r"

definition right :: "rectangle \<Rightarrow> real" where
  "right r = rx r + width r"

definition top :: "rectangle \<Rightarrow> real" where
  "top r = ry r"

definition bottom :: "rectangle \<Rightarrow> real" where
  "bottom r = ry r + height r"

text \<open>
  The shapes the tests handle: a \<^verbatim>\<open>PIXI.Rectangle\<close>, a \<^verbatim>\<open>PIXI.Polygon\<close> with its flat
  \<^verbatim>\<open>points\<close> array (\<^verbatim>\<open>[x0, y0, x1, y1, ...]\<close>), and \<^verbatim>\<open>ClipperPaths\<close>, a region of
  several contours.
\<close>

datatype shape =
  Rectangle rectangle
  | Polygon "real list"
  | ClipperPaths "real list list"

fun isClipperPaths :: "shape \<Rightarrow> bool" where
  "isClipperPaths (ClipperPaths _) = True"
| "isClipperPaths _ = False"

text \<open>A wall elevation bound is a number or one of the two infinities.\<close>

datatype elevation = NegInfinity | Finite real | PosInfinity

fun isFinite :: "elevation \<Rightarrow> bool" where
  "isFinite (Finite _) = True"
| "isFinite _ = False"

record wall =
  wallA :: point
  wallB :: point
  wall_topZ :: elevation
  wall_bottomZ :: elevation

subsection \<open>Tokens, vision sources, test objects, settings\<close>

text \<open>
  A token with the fields the tests read, and \<^verbatim>\<open>_constrainedTokenShape\<close>, the cached
  footprint (\<open>None\<close> while it is undefined).
\<close>

record token =
  bounds :: rectangle
  center :: point
  topZ :: real
  bottomZ :: real
  constrainedTokenShape_cache :: "shape option"

text \<open>The target of a test is a \<^verbatim>\<open>Token\<close> or some other placeable object.\<close>

datatype placeable = Token token | OtherPlaceable

fun isToken :: "placeable \<Rightarrow> bool" where
  "isToken (Token _) = True"
| "isToken OtherPlaceable = False"

text \<open>A vision source: position, elevation, and its 2D line-of-sight polygon \<^verbatim>\<open>los\<close>.\<close>

record visionSource =
  vx :: real
  vy :: real
  elevationZ :: real
  los :: "real list"

text \<open>
  A test object \<^verbatim>\<open>{ point, los }\<close>: \<^verbatim>\<open>los\<close> is the map that caches, per source, the 2D
  containment result; \<^verbatim>\<open>hasLOSArea\<close> is set on the centre test by the area algorithm.
\<close>

record test =
  tpoint :: point3d
  losMap :: "(nat \<times> bool) list"
  hasLOSArea :: "bool option"

text \<open>The settings the tests read, and the names of their choices (settings.js).\<close>

record settings =
  range_algorithm :: string
  los_algorithm :: string
  los_percent_area :: real

definition RANGE_CENTER :: string where
  "RANGE_CENTER = ''range-center''"

definition RANGE_FOUNDRY :: string where
  "RANGE_FOUNDRY = ''range-foundry''"

definition RANGE_FOUNDRY_3D :: string where
  "RANGE_FOUNDRY_3D = ''range-foundry-3d''"

definition LOS_POINTS :: string where
  "LOS_POINTS = ''los-points''"

definition LOS_AREA :: string where
  "LOS_AREA = ''los-area''"

subsection \<open>Effects\<close>

datatype color = green | red | blue

text \<open>
  What a test does besides returning: debug drawing (\<^verbatim>\<open>drawing.drawPoint\<close> with its
  \<^verbatim>\<open>color\<close>, \<^verbatim>\<open>alpha\<close> and \<^verbatim>\<open>radius\<close>, \<^verbatim>\<open>drawing.drawShape\<close> with its \<^verbatim>\<open>color\<close> and
  \<^verbatim>\<open>width\<close>), logging, and the calls into the host that query the scene or clip polygons.
\<close>

datatype event =
  DrawPoint point3d color "real option" "real option"
  | DrawShape shape color "real option"
  | Log string
  | ConsoleWarn string
  | GetLightRadius real
  | GetObjects rectangle
  | SweepCompute point rectangle
  | IntersectPolygon shape shape
  | CombinePolygonWithShadows "real list" "shape list"
  | TestCollision3d point3d point3d

subsection \<open>The host\<close>

text \<open>
  The functions of the host and of the geometry library that the script calls and that
  are not under src/. They are parameters of the model.
  \<^item> \<open>getLightRadius\<close>: \<^verbatim>\<open>visionSource.object.getLightRadius(mode.range)\<close>;
  \<^item> \<open>getObjects\<close>: the walls \<^verbatim>\<open>canvas.walls.quadtree\<close> holds for a rectangle;
  \<^item> \<open>lineSegmentIntersects r a b options\<close>:
    \<^verbatim>\<open>r.lineSegmentIntersects(a, b, { inside, intersectFn })\<close>;
  \<^item> \<open>pad\<close>: \<^verbatim>\<open>PIXI.Rectangle.pad\<close>;
  \<^item> \<open>compute\<close>: the points of the \<^verbatim>\<open>ClockwiseSweepPolygon\<close> computed from an origin with
    one boundary shape;
  \<^item> \<open>iteratePoints\<close>: \<^verbatim>\<open>iteratePoints({ close: false })\<close> of a polygon;
  \<^item> \<open>iterateEdges\<close>, \<open>getBounds\<close>, \<open>linesCross\<close>, \<open>toPolygon\<close>, \<open>intersectPolygon\<close>,
    \<open>area\<close>, \<open>simplify\<close>, \<open>toPolygons\<close>: the methods of the shapes;
  \<^item> \<open>shadowConstruct\<close>, \<open>combinePolygonWithShadows\<close>: \<^verbatim>\<open>Shadow.construct\<close> and
    \<^verbatim>\<open>Shadow.combinePolygonWithShadows\<close>;
  \<^item> \<open>testCollision3d\<close>: \<^verbatim>\<open>ClockwiseSweepPolygon.testCollision3d\<close>;
  \<^item> \<open>point3dAlmostEqual\<close>: \<^verbatim>\<open>almostEqual\<close> of a test point and a \<^verbatim>\<open>Point3d\<close>;
  \<^item> \<open>wallHeightActive\<close>: whether the module wall-height is active.
\<close>

text \<open>
  The options of \<^verbatim>\<open>lineSegmentIntersects\<close>: \<open>None\<close> is an option the call does not pass.
  The only function the script passes as \<^verbatim>\<open>intersectFn\<close> is
  \<^verbatim>\<open>foundry.utils.lineSegmentIntersects\<close>.
\<close>

datatype intersectFn = foundry_utils_lineSegmentIntersects

record lsiOptions =
  inside :: "bool option"
  intersectFn :: "intersectFn option"

record host =
  getLightRadius :: "real \<Rightarrow> real"
  getObjects :: "rectangle \<Rightarrow> wall list"
  lineSegmentIntersects :: "rectangle \<Rightarrow> point \<Rightarrow> point \<Rightarrow> lsiOptions \<Rightarrow> bool"
  pad :: "rectangle \<Rightarrow> real \<Rightarrow> real \<Rightarrow> rectangle"
  compute :: "point \<Rightarrow> rectangle \<Rightarrow> real list"
  iteratePoints :: "real list \<Rightarrow> point list"
  iterateEdges :: "shape \<Rightarrow> (point \<times> point) list"
  getBounds :: "shape \<Rightarrow> rectangle"
  linesCross :: "shape \<Rightarrow> (point \<times> point) list \<Rightarrow> bool"
  toPolygon :: "rectangle \<Rightarrow> real list"
  intersectPolygon :: "shape \<Rightarrow> shape \<Rightarrow> shape"
  area :: "shape \<Rightarrow> real"
  simplify :: "real list list \<Rightarrow> shape"
  toPolygons :: "real list list \<Rightarrow> (real list \<times> bool) list"
  shadowConstruct :: "wall \<Rightarrow> visionSource \<Rightarrow> real \<Rightarrow> shape option"
  combinePolygonWithShadows :: "real list \<Rightarrow> shape list \<Rightarrow> shape"
  testCollision3d :: "point3d \<Rightarrow> point3d \<Rightarrow> bool"
  point3dAlmostEqual :: "point3d \<Rightarrow> point3d \<Rightarrow> bool"
  wallHeightActive :: bool

subsection \<open>Range\<close>

text \<open>
  \<^verbatim>\<open>_testRangeDetectionMode(wrapper, visionSource, mode, target, test)\<close>. \<open>wrapper\<close> is
  the result of the wrapped 2D range test, \<open>modeRange\<close> is \<^verbatim>\<open>mode.range\<close>. With an undefined
  \<^verbatim>\<open>test.point.z\<close> the script compares \<^verbatim>\<open>NaN\<close> with the squared radius, which is false.
\<close>

definition testRangeDetectionMode ::
  "host \<Rightarrow> bool \<Rightarrow> bool \<Rightarrow> visionSource \<Rightarrow> real \<Rightarrow> placeable \<Rightarrow> test \<Rightarrow> bool \<times> event list" where
  "testRangeDetectionMode h debug wrapper source modeRange target t =
     (let inRange = wrapper in
      if \<not> isToken target \<or> \<not> inRange then
        (inRange,
         if debug then [DrawPoint (tpoint t) (if inRange then green else red) None None] else [])
      else
        let radius = getLightRadius h modeRange;
            dx = px (tpoint t) - vx source;
            dy = py (tpoint t) - vy source;
            inRange3d =
              (case pz (tpoint t) of
                 None \<Rightarrow> False
               | Some z \<Rightarrow>
                   let dz = z - elevationZ source
                   in (dx * dx) + (dy * dy) + (dz * dz) \<le> radius * radius)
        in (inRange3d,
            GetLightRadius modeRange #
            (if debug then
               [DrawPoint (tpoint t) (if inRange3d then green else red) (Some 1) (Some 3)]
             else [])))"

subsection \<open>Test points\<close>

text \<open>
  \<^verbatim>\<open>buildTestObject(x, y, z, los)\<close>: a fresh test object on the given map.
\<close>

definition buildTestObject :: "real \<Rightarrow> real \<Rightarrow> real \<Rightarrow> (nat \<times> bool) list \<Rightarrow> test" where
  "buildTestObject x y z l =
     \<lparr>tpoint = \<lparr>px = x, py = y, pz = Some z\<rparr>, losMap = l, hasLOSArea = None\<rparr>"

text \<open>\<^verbatim>\<open>test.point.z ??= avgElevation\<close>: only an undefined \<^verbatim>\<open>z\<close> is assigned.\<close>

definition defaultElevation :: "real \<Rightarrow> test \<Rightarrow> test" where
  "defaultElevation avgElevation t =
     (case pz (tpoint t) of
        None \<Rightarrow> t\<lparr>tpoint := (tpoint t)\<lparr>pz := Some avgElevation\<rparr>\<rparr>
      | Some _ \<Rightarrow> t)"

text \<open>
  \<^verbatim>\<open>elevatePoints(tests, visionSource, object)\<close>. The script assigns the default elevations
  to the test objects it was given and returns an array: the result is the pair of the
  given test objects after the call and the returned array. An element of the returned
  array is \<open>None\<close> where the script stores \<^verbatim>\<open>undefined\<close> (\<^verbatim>\<open>tests[0]\<close> of an empty
  array).
\<close>

definition elevatePoints ::
  "settings \<Rightarrow> test list \<Rightarrow> placeable \<Rightarrow> (test list \<times> test option list) \<times> event list" where
  "elevatePoints st tests object =
     (case object of
        OtherPlaceable \<Rightarrow> ((tests, map Some tests), [])
      | Token tok \<Rightarrow>
          let objectHeight = topZ tok - bottomZ tok;
              avgElevation = bottomZ tok + (objectHeight * 0.5);
              tests1 = map (defaultElevation avgElevation) tests
          in if objectHeight = 0 \<or> range_algorithm st \<noteq> RANGE_FOUNDRY_3D then
               ((tests1, map Some tests1), [])
             else
               let tests3d =
                     (case tests1 of [] \<Rightarrow> None | t0 # _ \<Rightarrow> Some t0) #
                     concat (map (\<lambda>t.
                       [Some (buildTestObject (px (tpoint t)) (py (tpoint t)) (topZ tok) (losMap t)),
                        Some (buildTestObject (px (tpoint t)) (py (tpoint t)) (bottomZ tok) (losMap t))])
                       (drop 1 tests1));
                   warnings =
                     concat (map (\<lambda>t.
                       if length (losMap t) > 0
                       then [ConsoleWarn ''Test point has los mapping already.''] else [])
                       (drop 1 tests1))
               in ((tests1, tests3d), warnings))"

subsection \<open>Line of sight to a point\<close>

text \<open>\<^verbatim>\<open>testLOSPoint(visionSource, target, test, hasLOS)\<close>.\<close>

definition testLOSPoint :: "host \<Rightarrow> visionSource \<Rightarrow> test \<Rightarrow> bool \<Rightarrow> bool \<times> event list" where
  "testLOSPoint h source t hasLOS =
     (if \<not> hasLOS then (False, [])
      else if \<not> wallHeightActive h then (True, [])
      else
        let origin = \<lparr>px = vx source, py = vy source, pz = Some (elevationZ source)\<rparr>
        in (\<not> testCollision3d h origin (tpoint t), [TestCollision3d origin (tpoint t)]))"

subsection \<open>The constrained token shape\<close>

text \<open>
  The second wall filter of \<^verbatim>\<open>constrainedTokenShape\<close>: a wall in line with a boundary
  edge is dropped.
\<close>

definition inLineWithBoundaryEdge :: "rectangle \<Rightarrow> wall \<Rightarrow> bool" where
  "inLineWithBoundaryEdge bbox w =
     (if px (wallA w) = px (wallB w) \<and> (px (wallA w) = left bbox \<or> px (wallA w) = right bbox)
      then True
      else if py (wallA w) = py (wallB w) \<and> (py (wallA w) = top bbox \<or> py (wallA w) = bottom bbox)
      then True
      else False)"

text \<open>
  The check of one vertex in the loop that ends \<^verbatim>\<open>constrainedTokenShape\<close>, as the script
  writes it: the second line compares \<^verbatim>\<open>pt.x\<close> with \<^verbatim>\<open>bbox.top\<close> and \<^verbatim>\<open>pt.y\<close> with
  \<^verbatim>\<open>bbox.bottom\<close>.
\<close>

definition vertexOnBoundary :: "rectangle \<Rightarrow> point \<Rightarrow> bool" where
  "vertexOnBoundary bbox pt =
     ((almostEqual (px pt) (left bbox) \<or> almostEqual (px pt) (right bbox)) \<and>
      (almostEqual (px pt) (top bbox) \<or> almostEqual (py pt) (bottom bbox)))"

text \<open>
  \<^verbatim>\<open>Math.ceil\<close> on the reals.
\<close>

definition Math_ceil :: "real \<Rightarrow> real" where
  "Math_ceil r = of_int \<lceil>r\<rceil>"

text \<open>
  The walls that remain after the two filters of \<^verbatim>\<open>constrainedTokenShape\<close>.
\<close>

definition qualifyingWalls :: "host \<Rightarrow> rectangle \<Rightarrow> wall list" where
  "qualifyingWalls h bbox =
     filter (\<lambda>w. \<not> inLineWithBoundaryEdge bbox w)
       (filter (\<lambda>w. lineSegmentIntersects h bbox (wallA w) (wallB w)
                  \<lparr>inside = Some True, intersectFn = Some foundry_utils_lineSegmentIntersects\<rparr>)
          (getObjects h bbox))"

text \<open>
  \<^verbatim>\<open>constrainedTokenShape(token, { boundsScale })\<close>; \<open>None\<close> is an undefined
  \<^verbatim>\<open>boundsScale\<close>. The result is the boundary rectangle or the sweep polygon.
\<close>

definition constrainedTokenShape :: "host \<Rightarrow> token \<Rightarrow> real option \<Rightarrow> shape \<times> event list" where
  "constrainedTokenShape h tok boundsScaleOpt =
     (let boundsScale = (case boundsScaleOpt of None \<Rightarrow> 1 | Some b \<Rightarrow> b);
          bbox0 = bounds tok;
          bbox =
            (if boundsScale \<noteq> 1 then
               let scalar = boundsScale - 1
               in pad h bbox0 (Math_ceil (width bbox0 * scalar)) (Math_ceil (height bbox0 * scalar))
             else bbox0)
      in if getObjects h bbox = [] then (Rectangle bbox, [GetObjects bbox])
         else if qualifyingWalls h bbox = [] then (Rectangle bbox, [GetObjects bbox])
         else
           let points = compute h (center tok) bbox;
               evs = [GetObjects bbox, SweepCompute (center tok) bbox]
           in if length points \<noteq> 10 then (Polygon points, evs)
              else if list_all (vertexOnBoundary bbox) (iteratePoints h points)
              then (Rectangle bbox, evs)
              else (Polygon points, evs))"

subsection \<open>Shadows\<close>

text \<open>
  \<^verbatim>\<open>shadowPolygonForElevation(visionSource, targetElevation)\<close>. The quadtree is asked for
  the walls in the bounds of the line-of-sight polygon that pass \<^verbatim>\<open>collisionTest\<close>.
\<close>

definition collisionTest :: "wall \<Rightarrow> bool" where
  "collisionTest w = (isFinite (wall_topZ w) \<or> isFinite (wall_bottomZ w))"

definition shadowPolygonForElevation ::
  "host \<Rightarrow> visionSource \<Rightarrow> real \<Rightarrow> shape \<times> event list" where
  "shadowPolygonForElevation h source targetElevation =
     (let l = los source;
          bnds = getBounds h (Polygon l);
          walls = filter collisionTest (getObjects h bnds)
      in if walls = [] then
           (Polygon l,
            [Log ''Building shadows.'', GetObjects bnds, Log ''No limited walls; no shadows.''])
         else
           let shadows = List.map_filter (\<lambda>w. shadowConstruct h w source targetElevation) walls;
               combined = combinePolygonWithShadows h l shadows
           in (combined,
               [Log ''Building shadows.'', GetObjects bnds, CombinePolygonWithShadows l shadows]))"

subsection \<open>The area test\<close>

text \<open>\<^verbatim>\<open>intersectConstrainedShapeWithLOS(constrained, los)\<close>.\<close>

definition intersectConstrainedShapeWithLOS :: "host \<Rightarrow> shape \<Rightarrow> shape \<Rightarrow> shape \<times> event list" where
  "intersectConstrainedShapeWithLOS h constrained l =
     (let c = (case constrained of Rectangle r \<Rightarrow> Polygon (toPolygon h r) | _ \<Rightarrow> constrained)
      in (intersectPolygon h l c, [IntersectPolygon l c]))"

text \<open>\<^verbatim>\<open>sourceIntersectsBounds(source, bbox)\<close>.\<close>

definition sourceIntersectsBounds :: "host \<Rightarrow> shape \<Rightarrow> rectangle \<Rightarrow> bool" where
  "sourceIntersectsBounds h source bbox =
     list_ex (\<lambda>si. lineSegmentIntersects h bbox (fst si) (snd si)
                \<lparr>inside = None, intersectFn = Some foundry_utils_lineSegmentIntersects\<rparr>)
       (iterateEdges h source)"

text \<open>\<^verbatim>\<open>sourceIntersectsPolygonBounds(source, bounds)\<close>.\<close>

definition sourceIntersectsPolygonBounds :: "host \<Rightarrow> shape \<Rightarrow> shape \<Rightarrow> bool" where
  "sourceIntersectsPolygonBounds h source bnds =
     (case bnds of
        Rectangle r \<Rightarrow> sourceIntersectsBounds h source r
      | _ \<Rightarrow>
          let bbox = getBounds h bnds;
              edges = filter (\<lambda>e. lineSegmentIntersects h bbox (fst e) (snd e)
                               \<lparr>inside = Some True, intersectFn = None\<rparr>)
                        (iterateEdges h source)
          in linesCross h bnds edges)"

text \<open>
  The drawing at the end of \<^verbatim>\<open>areaTest\<close>, done when \<^verbatim>\<open>debug\<close> is set.
\<close>

definition areaTestDebugDrawing :: "host \<Rightarrow> shape \<Rightarrow> shape \<Rightarrow> bool \<Rightarrow> event list" where
  "areaTestDebugDrawing h l visibleTokenShape hasLOS =
     (let l1 = (case l of ClipperPaths ps \<Rightarrow> simplify h ps | _ \<Rightarrow> l);
          v1 = (case visibleTokenShape of ClipperPaths ps \<Rightarrow> simplify h ps | _ \<Rightarrow> visibleTokenShape);
          c = (if hasLOS then green else red)
      in (case l1 of
            ClipperPaths ps \<Rightarrow>
              map (\<lambda>poly. DrawShape (Polygon (fst poly)) blue (Some (if snd poly then 1 else 2)))
                (toPolygons h ps)
          | _ \<Rightarrow> [DrawShape l1 blue (Some 2)]) @
         (case v1 of
            ClipperPaths ps \<Rightarrow> map (\<lambda>poly. DrawShape (Polygon (fst poly)) c None) (toPolygons h ps)
          | _ \<Rightarrow> [DrawShape v1 c None]))"

text \<open>
  \<^verbatim>\<open>areaTest(los, constrainedTokenShape)\<close>, with the debug flag and the settings it reads.
  \<^verbatim>\<open>!seenArea\<close> holds of the number zero.
\<close>

definition areaTest :: "host \<Rightarrow> bool \<Rightarrow> settings \<Rightarrow> shape \<Rightarrow> shape \<Rightarrow> bool \<times> event list" where
  "areaTest h debug st los0 constrained =
     (let percentArea = los_percent_area st;
          l = (if percentArea = 0
               then (case los0 of ClipperPaths ps \<Rightarrow> simplify h ps | _ \<Rightarrow> los0)
               else los0)
      in if percentArea = 0 \<and> \<not> isClipperPaths l then
           let hasLOS = sourceIntersectsPolygonBounds h l constrained
           in (hasLOS,
               if debug then
                 [DrawShape l blue None, DrawShape constrained (if hasLOS then green else red) None]
               else [])
         else
           let visible = intersectConstrainedShapeWithLOS h constrained l;
               visibleTokenShape = fst visible;
               seenArea = area h visibleTokenShape
           in if seenArea = 0 \<or> almostEqual seenArea 0 then (False, snd visible)
              else
                let tokenArea = area h constrained
                in if tokenArea = 0 \<or> almostEqual tokenArea 0 then (False, snd visible)
                   else
                     let percentSeen = seenArea / tokenArea;
                         hasLOS = (percentSeen > percentArea \<or> almostEqual percentSeen percentArea)
                     in (hasLOS,
                         snd visible @
                         (if debug then areaTestDebugDrawing h l visibleTokenShape hasLOS else [])))"

subsection \<open>Line of sight by area\<close>

text \<open>
  \<^verbatim>\<open>testLOSArea(visionSource, target, hasLOS)\<close>. The script stores the constrained shape
  in the token, so the token is returned with the result.
\<close>

definition testLOSArea ::
  "host \<Rightarrow> bool \<Rightarrow> settings \<Rightarrow> visionSource \<Rightarrow> token \<Rightarrow> bool \<Rightarrow> (bool \<times> token) \<times> event list" where
  "testLOSArea h debug st source target hasLOS =
     (let percentArea = los_percent_area st;
          boundsScale = 1
      in if hasLOS \<and> percentArea < 0.50 then ((True, target), [])
         else if \<not> hasLOS \<and> percentArea \<ge> 0.50 then ((False, target), [])
         else
           let c = (case constrainedTokenShape_cache target of
                      Some cached \<Rightarrow> (cached, [])
                    | None \<Rightarrow> constrainedTokenShape h target (Some boundsScale));
               constrained = fst c;
               target1 = target\<lparr>constrainedTokenShape_cache := Some constrained\<rparr>;
               inBetween = (elevationZ source < topZ target \<and> elevationZ source > bottomZ target);
               shadowLOSBottom =
                 (if inBetween \<or> elevationZ source < bottomZ target
                  then Some (shadowPolygonForElevation h source (bottomZ target)) else None);
               shadowLOSTop =
                 (if inBetween \<or> elevationZ source > topZ target
                  then Some (shadowPolygonForElevation h source (topZ target)) else None);
               evs = snd c @ (case shadowLOSBottom of Some b \<Rightarrow> snd b | None \<Rightarrow> []) @
                       (case shadowLOSTop of Some t \<Rightarrow> snd t | None \<Rightarrow> [])
           in (case (shadowLOSTop, shadowLOSBottom) of
                 (Some t, Some b) \<Rightarrow>
                   let top_result = areaTest h debug st (fst t) constrained
                   in if fst top_result then ((True, target1), evs @ snd top_result)
                      else
                        let bottom_result = areaTest h debug st (fst b) constrained
                        in ((fst bottom_result, target1),
                            evs @ snd top_result @ snd bottom_result)
               | _ \<Rightarrow>
                   let shadowed =
                         (case shadowLOSTop of
                            Some t \<Rightarrow> fst t
                          | None \<Rightarrow>
                              (case shadowLOSBottom of
                                 Some b \<Rightarrow> fst b
                               | None \<Rightarrow> Polygon (los source)));
                       result = areaTest h debug st shadowed constrained
                   in ((fst result, target1), evs @ snd result)))"

subsection \<open>The line-of-sight test of a detection mode\<close>

datatype error = TypeError

text \<open>
  \<^verbatim>\<open>_testLOSDetectionMode(wrapped, visionSource, mode, target, test)\<close>. \<open>wrapped\<close> is the
  result of the wrapped test, \<open>centerPoint\<close> the test object \<^verbatim>\<open>test.centerPoint\<close> refers to
  (\<open>None\<close> when the property is undefined: reading \<^verbatim>\<open>hasLOSArea\<close> from it throws). The
  returned value is \<open>None\<close> where the script returns \<^verbatim>\<open>undefined\<close>; the test object and
  the target are returned as the script leaves them.
\<close>

definition testLOSDetectionMode ::
  "host \<Rightarrow> bool \<Rightarrow> settings \<Rightarrow> bool \<Rightarrow> visionSource \<Rightarrow> placeable \<Rightarrow> test \<Rightarrow> test option \<Rightarrow>
     (error + (bool option \<times> test \<times> placeable)) \<times> event list" where
  "testLOSDetectionMode h debug st wrapped source target t centerPoint =
     (case target of
        OtherPlaceable \<Rightarrow> (Inr (Some wrapped, t, target), [])
      | Token tok \<Rightarrow>
          let algorithm = los_algorithm st
          in if algorithm = LOS_POINTS then
               let r = testLOSPoint h source t wrapped;
                   hasLOS = fst r
               in (Inr (Some hasLOS, t, target),
                   snd r @
                   (if debug then
                      [DrawPoint (tpoint t) (if hasLOS then green else red) (Some 0.2) (Some 7)]
                    else []))
             else if algorithm = LOS_AREA then
               let avgElevation = bottomZ tok + ((topZ tok - bottomZ tok) * 0.5);
                   c = \<lparr>px = px (center tok), py = py (center tok), pz = Some avgElevation\<rparr>
               in if \<not> point3dAlmostEqual h (tpoint t) c then
                    (case centerPoint of
                       None \<Rightarrow> (Inl TypeError, [])
                     | Some cp \<Rightarrow> (Inr (hasLOSArea cp, t, target), []))
                  else
                    let r = testLOSArea h debug st source tok wrapped;
                        hasLOS = fst (fst r)
                    in (Inr (Some hasLOS, t\<lparr>hasLOSArea := Some hasLOS\<rparr>, Token (snd (fst r))),
                        snd r)
             else (Inr (None, t, target), []))"

subsection \<open>Strict crossing\<close>

text \<open>
  Modelled from the spec: \<^verbatim>\<open>lineSegmentCrosses\<close> (util.js) and \<^verbatim>\<open>linesCross\<close> of a polygon
  (PIXIPolygon.js) are imported by the script and are not under src/. The spec asks for
  "a strict crossing definition: overlapping colinear edges do NOT count as crossing, and
  an edge endpoint merely touching the other shape's boundary does NOT count as
  crossing". \<open>orient2d a b c\<close> is the orientation of \<open>c\<close> with respect to the line
  through \<open>a\<close> and \<open>b\<close>: zero when the three points are colinear, and of opposite
  signs on the two sides of the line. Two segments cross when the endpoints of each lie
  strictly on opposite sides of the line through the other; the edges of a shape cross a
  list of edges when some pair does.
\<close>

definition orient2d :: "point \<Rightarrow> point \<Rightarrow> point \<Rightarrow> real" where
  "orient2d a b c = (py a - py c) * (px b - px c) - (px a - px c) * (py b - py c)"

definition lineSegmentCrosses :: "point \<Rightarrow> point \<Rightarrow> point \<Rightarrow> point \<Rightarrow> bool" where
  "lineSegmentCrosses a b c d =
     (orient2d a b c * orient2d a b d < 0 \<and> orient2d c d a * orient2d c d b < 0)"

definition strictLinesCross :: "(point \<times> point) list \<Rightarrow> (point \<times> point) list \<Rightarrow> bool" where
  "strictLinesCross boundaryEdges edges =
     list_ex (\<lambda>e. list_ex (\<lambda>f. lineSegmentCrosses (fst e) (snd e) (fst f) (snd f)) boundaryEdges)
       edges"

text \<open>
  The contacts of two edges that the claim on strict crossing names, as predicates: the
  edges are colinear (both endpoints of \<open>f\<close> lie on the line through \<open>e\<close>), or an
  endpoint of one lies on the other. \<open>segmentsMeet\<close> is the endpoint-inclusive test:
  neither edge lies strictly on one side of the other.
\<close>

definition colinearEdges :: "point \<times> point \<Rightarrow> point \<times> point \<Rightarrow> bool" where
  "colinearEdges e f =
     (orient2d (fst e) (snd e) (fst f) = 0 \<and> orient2d (fst e) (snd e) (snd f) = 0)"

definition onSegment :: "point \<times> point \<Rightarrow> point \<Rightarrow> bool" where
  "onSegment e c =
     (orient2d (fst e) (snd e) c = 0 \<and>
      min (px (fst e)) (px (snd e)) \<le> px c \<and> px c \<le> max (px (fst e)) (px (snd e)) \<and>
      min (py (fst e)) (py (snd e)) \<le> py c \<and> py c \<le> max (py (fst e)) (py (snd e)))"


definition segmentsMeet :: "point \<times> point \<Rightarrow> point \<times> point \<Rightarrow> bool" where
  "segmentsMeet e f =
     (orient2d (fst e) (snd e) (fst f) * orient2d (fst e) (snd e) (snd f) \<le> 0 \<and>
      orient2d (fst f) (snd f) (fst e) * orient2d (fst f) (snd f) (snd e) \<le> 0)"

text \<open>
  A vertex lies on the edges of a rectangle: the reading of "every vertex lies on the
  boundary's own edges".
\<close>

definition onRectangleEdges :: "rectangle \<Rightarrow> point \<Rightarrow> bool" where
  "onRectangleEdges r pt =
     (((px pt = left r \<or> px pt = right r) \<and> top r \<le> py pt \<and> py pt \<le> bottom r) \<or>
      ((py pt = top r \<or> py pt = bottom r) \<and> left r \<le> px pt \<and> px pt \<le> right r))"

section \<open>A host for the examples\<close>

text \<open>
  A host that is simple enough to evaluate. A polygon is read from its flat points array;
  its area is the shoelace formula, its bounds the bounding box of its vertices. Of the
  \<^verbatim>\<open>ClipperPaths\<close> the first contour is the outer one and the others are holes.
  \<open>intersectWithBox l c\<close> is \<open>l\<close> when \<open>l\<close> lies within the bounding box of \<open>c\<close>, and the
  intersection of the two bounding boxes otherwise: that is the intersection of the two
  shapes when \<open>c\<close> is an axis-aligned rectangle and \<open>l\<close> lies within it, and when both are
  axis-aligned rectangles. A rectangle meets a segment when both endpoints are in it and
  \<^verbatim>\<open>inside\<close> is set, or an edge of the rectangle meets the segment without being colinear
  with it: the test is endpoint-inclusive, as the segment test
  \<^verbatim>\<open>foundry.utils.lineSegmentIntersects\<close> that the script passes, so a segment that ends
  on the boundary meets the rectangle. The sweep of this host returns the closed boundary,
  and there are no shadows; an example that needs another sweep or shadows replaces these
  fields.
\<close>

fun pointsOf :: "real list \<Rightarrow> point list" where
  "pointsOf (x # y # rest) = \<lparr>px = x, py = y\<rparr> # pointsOf rest"
| "pointsOf _ = []"

definition rectanglePoints :: "rectangle \<Rightarrow> real list" where
  "rectanglePoints r = [left r, top r, right r, top r, right r, bottom r, left r, bottom r]"

definition boundsOfPoints :: "real list \<Rightarrow> rectangle" where
  "boundsOfPoints pts =
     (case pointsOf pts of
        [] \<Rightarrow> \<lparr>rx = 0, ry = 0, width = 0, height = 0\<rparr>
      | p # ps \<Rightarrow>
          let x0 = fold min (map px ps) (px p); x1 = fold max (map px ps) (px p);
              y0 = fold min (map py ps) (py p); y1 = fold max (map py ps) (py p)
          in \<lparr>rx = x0, ry = y0, width = x1 - x0, height = y1 - y0\<rparr>)"

fun boundsOfShape :: "shape \<Rightarrow> rectangle" where
  "boundsOfShape (Rectangle r) = r"
| "boundsOfShape (Polygon pts) = boundsOfPoints pts"
| "boundsOfShape (ClipperPaths ps) = boundsOfPoints (concat ps)"

definition edgesOfPoints :: "real list \<Rightarrow> (point \<times> point) list" where
  "edgesOfPoints pts = (let ps = pointsOf pts in zip ps (rotate1 ps))"

fun edgesOfShape :: "shape \<Rightarrow> (point \<times> point) list" where
  "edgesOfShape (Rectangle r) = edgesOfPoints (rectanglePoints r)"
| "edgesOfShape (Polygon pts) = edgesOfPoints pts"
| "edgesOfShape (ClipperPaths ps) = concat (map edgesOfPoints ps)"

fun shoelace :: "point list \<Rightarrow> real" where
  "shoelace (p # q # ps) = px p * py q - px q * py p + shoelace (q # ps)"
| "shoelace _ = 0"

definition areaOfPoints :: "real list \<Rightarrow> real" where
  "areaOfPoints pts =
     (case pointsOf pts of [] \<Rightarrow> 0 | p # ps \<Rightarrow> \<bar>shoelace (p # ps @ [p])\<bar> / 2)"

fun areaOfShape :: "shape \<Rightarrow> real" where
  "areaOfShape (Rectangle r) = width r * height r"
| "areaOfShape (Polygon pts) = areaOfPoints pts"
| "areaOfShape (ClipperPaths []) = 0"
| "areaOfShape (ClipperPaths (p # holes)) = areaOfPoints p - sum_list (map areaOfPoints holes)"

definition rectangleWithin :: "rectangle \<Rightarrow> rectangle \<Rightarrow> bool" where
  "rectangleWithin a b =
     (left b \<le> left a \<and> right a \<le> right b \<and> top b \<le> top a \<and> bottom a \<le> bottom b)"

definition intersectBoxes :: "rectangle \<Rightarrow> rectangle \<Rightarrow> shape" where
  "intersectBoxes a b =
     (let x0 = max (left a) (left b); x1 = min (right a) (right b);
          y0 = max (top a) (top b); y1 = min (bottom a) (bottom b)
      in if x0 < x1 \<and> y0 < y1
         then Polygon (rectanglePoints \<lparr>rx = x0, ry = y0, width = x1 - x0, height = y1 - y0\<rparr>)
         else Polygon [])"

definition intersectWithBox :: "shape \<Rightarrow> shape \<Rightarrow> shape" where
  "intersectWithBox l c =
     (if rectangleWithin (boundsOfShape l) (boundsOfShape c) then l
      else intersectBoxes (boundsOfShape l) (boundsOfShape c))"

definition pointInRectangle :: "rectangle \<Rightarrow> point \<Rightarrow> bool" where
  "pointInRectangle r p =
     (left r \<le> px p \<and> px p \<le> right r \<and> top r \<le> py p \<and> py p \<le> bottom r)"

definition rectangleLineSegmentIntersects ::
  "rectangle \<Rightarrow> point \<Rightarrow> point \<Rightarrow> lsiOptions \<Rightarrow> bool" where
  "rectangleLineSegmentIntersects r a b options =
     (if pointInRectangle r a \<and> pointInRectangle r b then inside options = Some True
      else list_ex (\<lambda>e. segmentsMeet e (a, b) \<and> \<not> colinearEdges e (a, b))
             (edgesOfPoints (rectanglePoints r)))"

definition wallInRectangle :: "rectangle \<Rightarrow> wall \<Rightarrow> bool" where
  "wallInRectangle r w =
     (let b = boundsOfPoints [px (wallA w), py (wallA w), px (wallB w), py (wallB w)]
      in left b \<le> right r \<and> left r \<le> right b \<and> top b \<le> bottom r \<and> top r \<le> bottom b)"

definition exampleHost :: "wall list \<Rightarrow> host" where
  "exampleHost walls =
     \<lparr>getLightRadius = (\<lambda>r. r),
      getObjects = (\<lambda>r. filter (wallInRectangle r) walls),
      lineSegmentIntersects = rectangleLineSegmentIntersects,
      pad = (\<lambda>r x y. \<lparr>rx = rx r - x, ry = ry r - y,
                      width = width r + 2 * x, height = height r + 2 * y\<rparr>),
      compute = (\<lambda>origin bbox. rectanglePoints bbox @ [left bbox, top bbox]),
      iteratePoints = (\<lambda>pts. let ps = pointsOf pts
                              in if 1 < length ps \<and> last ps = hd ps then butlast ps else ps),
      iterateEdges = edgesOfShape,
      getBounds = boundsOfShape,
      linesCross = (\<lambda>b. strictLinesCross (edgesOfShape b)),
      toPolygon = rectanglePoints,
      intersectPolygon = intersectWithBox,
      area = areaOfShape,
      simplify = (\<lambda>ps. case ps of [p] \<Rightarrow> Polygon p | _ \<Rightarrow> ClipperPaths ps),
      toPolygons = (\<lambda>ps. case ps of [] \<Rightarrow> [] | p # holes \<Rightarrow> (p, False) # map (\<lambda>q. (q, True)) holes),
      shadowConstruct = (\<lambda>w s e. None),
      combinePolygonWithShadows = (\<lambda>l shadows. Polygon l),
      testCollision3d = (\<lambda>a b. False),
      point3dAlmostEqual =
        (\<lambda>p q. almostEqual (px p) (px q) \<and> almostEqual (py p) (py q) \<and>
               (case (pz p, pz q) of (Some a, Some b) \<Rightarrow> almostEqual a b | _ \<Rightarrow> False)),
      wallHeightActive = False\<rparr>"

text \<open>A token of 10 by 10 at the origin, standing from elevation 0 to elevation 10.\<close>

definition footprint10 :: rectangle where
  "footprint10 = \<lparr>rx = 0, ry = 0, width = 10, height = 10\<rparr>"

definition token10 :: token where
  "token10 = \<lparr>bounds = footprint10, center = \<lparr>px = 5, py = 5\<rparr>, topZ = 10, bottomZ = 0,
               constrainedTokenShape_cache = None\<rparr>"

text \<open>The area algorithm with a required fraction of one half, and with none.\<close>

definition halfSettings :: settings where
  "halfSettings =
     \<lparr>range_algorithm = RANGE_FOUNDRY, los_algorithm = LOS_AREA, los_percent_area = 0.5\<rparr>"

text \<open>An observer at the origin, at elevation 0, and two test points at 3, 4.\<close>

definition originSource :: visionSource where
  "originSource = \<lparr>vx = 0, vy = 0, elevationZ = 0, los = [0, 0, 5, 0, 5, 10, 0, 10]\<rparr>"

definition groundTest :: test where
  "groundTest = buildTestObject 3 4 0 []"

definition raisedTest :: test where
  "raisedTest = buildTestObject 3 4 1 []"


definition thirdSettings :: settings where
  "thirdSettings =
     \<lparr>range_algorithm = RANGE_FOUNDRY, los_algorithm = LOS_AREA, los_percent_area = 0.3\<rparr>"

text \<open>
  Two line-of-sight polygons inside the footprint of \<open>token10\<close>: its left half, of area 50,
  and a strip of area 49.
\<close>

definition leftHalf :: shape where
  "leftHalf = Polygon [0, 0, 5, 0, 5, 10, 0, 10]"

definition leftStrip :: shape where
  "leftStrip = Polygon [0, 0, 4.9, 0, 4.9, 10, 0, 10]"

text \<open>Two test points of \<open>token10\<close>: the centre, without elevation, and a corner on the ground.\<close>

definition centreTest :: test where
  "centreTest = \<lparr>tpoint = \<lparr>px = 5, py = 5, pz = None\<rparr>, losMap = [], hasLOSArea = None\<rparr>"

definition cornerTest :: test where
  "cornerTest = buildTestObject 0 0 0 []"

definition flatToken :: token where
  "flatToken = token10\<lparr>topZ := 0\<rparr>"

definition range3dSettings :: settings where
  "range3dSettings =
     \<lparr>range_algorithm = RANGE_FOUNDRY_3D, los_algorithm = LOS_POINTS, los_percent_area = 0\<rparr>"

text \<open>
  Walls around \<open>token10\<close>. \<open>edgeWall\<close> lies on the top edge of the footprint;
  \<open>touchingWall\<close> comes from outside and ends on the middle of the top edge. Both are of
  full height.
\<close>

definition edgeWall :: wall where
  "edgeWall = \<lparr>wallA = \<lparr>px = 0, py = 0\<rparr>, wallB = \<lparr>px = 10, py = 0\<rparr>,
                wall_topZ = PosInfinity, wall_bottomZ = NegInfinity\<rparr>"

definition touchingWall :: wall where
  "touchingWall = \<lparr>wallA = \<lparr>px = 5, py = - 5\<rparr>, wallB = \<lparr>px = 5, py = 0\<rparr>,
                    wall_topZ = PosInfinity, wall_bottomZ = NegInfinity\<rparr>"

text \<open>
  The host of the scene with \<open>touchingWall\<close>: the sweep from the centre of the token
  returns the boundary with the end of the wall as a sixth vertex.
\<close>

definition touchingWallHost :: host where
  "touchingWallHost =
     (exampleHost [touchingWall])\<lparr>compute := (\<lambda>origin bbox. [0, 0, 5, 0, 10, 0, 10, 10, 0, 10, 0, 0])\<rparr>"

text \<open>
  A scene with a shadow. The observer stands at \<open>(-5, 6)\<close>, at elevation 5, between the
  bottom and the top of \<open>token10\<close>, and sees the region of the plane with \<open>y\<close> at most
  6. \<open>floatingWall\<close> stands between the observer and the token, from elevation 2.5 up to
  the eyes of the observer: the observer sees the top plane of the token over it, and on
  the bottom plane the wall shadows what lies beyond \<open>x = 10/3\<close>. The host of the scene
  gives that shadow, and removes shadows from the polygon by cutting its bounding box at
  the left edge of the first shadow.
\<close>

definition floatingWall :: wall where
  "floatingWall = \<lparr>wallA = \<lparr>px = - 5 / 6, py = - 20\<rparr>, wallB = \<lparr>px = - 5 / 6, py = 6\<rparr>,
                    wall_topZ = Finite 5, wall_bottomZ = Finite 2.5\<rparr>"

definition cutAtShadow :: "real list \<Rightarrow> shape list \<Rightarrow> shape" where
  "cutAtShadow l shadows =
     (case shadows of
        [] \<Rightarrow> Polygon l
      | s # _ \<Rightarrow>
          let b = boundsOfPoints l
          in Polygon (rectanglePoints
               \<lparr>rx = left b, ry = top b, width = left (boundsOfShape s) - left b, height = height b\<rparr>))"

definition floatingWallHost :: host where
  "floatingWallHost =
     (exampleHost [floatingWall])
       \<lparr>shadowConstruct :=
          (\<lambda>w s e. if e < elevationZ s
                   then Some (Rectangle \<lparr>rx = 10 / 3, ry = - 20, width = 80 / 3, height = 26\<rparr>)
                   else None),
        combinePolygonWithShadows := cutAtShadow\<rparr>"

definition betweenSource :: visionSource where
  "betweenSource = \<lparr>vx = - 5, vy = 6, elevationZ = 5, los = [- 5, - 20, 30, - 20, 30, 6, - 5, 6]\<rparr>"

text \<open>
  The same scene with the observer at \<open>(-5, 5)\<close>, seeing the region with \<open>y\<close> at most 5:
  the centre of the token lies on the edge of the line-of-sight polygon.
\<close>

definition edgeSource :: visionSource where
  "edgeSource = \<lparr>vx = - 5, vy = 5, elevationZ = 5, los = [- 5, - 20, 30, - 20, 30, 5, - 5, 5]\<rparr>"




text \<open>
  The wording of the claim on the walls that constrain a footprint, as predicates: a wall
  strictly crosses a rectangle when it crosses one of its edges (strictly: a touching
  endpoint and a colinear overlap do not count), and lies inside it when both its
  endpoints are in it.
\<close>

definition strictlyCrossesRectangle :: "rectangle \<Rightarrow> wall \<Rightarrow> bool" where
  "strictlyCrossesRectangle r w =
     list_ex (\<lambda>e. lineSegmentCrosses (wallA w) (wallB w) (fst e) (snd e))
       (edgesOfPoints (rectanglePoints r))"

definition liesInsideRectangle :: "rectangle \<Rightarrow> wall \<Rightarrow> bool" where
  "liesInsideRectangle r w = (pointInRectangle r (wallA w) \<and> pointInRectangle r (wallB w))"

text \<open>
  The example host with a rectangle test that is strict: a segment meets the rectangle
  when it lies inside it and \<^verbatim>\<open>inside\<close> is set, or strictly crosses one of its edges.
\<close>

definition strictHost :: "wall list \<Rightarrow> host" where
  "strictHost walls =
     (exampleHost walls)
       \<lparr>lineSegmentIntersects :=
          (\<lambda>r a b options.
             (pointInRectangle r a \<and> pointInRectangle r b \<and> inside options = Some True) \<or>
             list_ex (\<lambda>e. lineSegmentCrosses a b (fst e) (snd e))
               (edgesOfPoints (rectanglePoints r)))\<rparr>"

section \<open>Properties\<close>

lemmas geometry_simps =
  left_def right_def top_def bottom_def rectanglePoints_def boundsOfPoints_def
  areaOfPoints_def intersectWithBox_def intersectBoxes_def rectangleWithin_def
  almostEqual_def EPSILON_def

subsection \<open>The range test\<close>

text \<open>
  C4. A 3D range test of a test point of a token: when the 2D test fails, the result is
  not-in-range, whatever the radius and the elevations are, and the radius is not even
  asked for; when the 2D test succeeds, the point is in range exactly when
  dx^2 + dy^2 + dz^2 is at most radius^2.
\<close>

theorem testRangeDetectionMode_3d:
  "testRangeDetectionMode h debug False source modeRange (Token tok) t =
     (False, if debug then [DrawPoint (tpoint t) red None None] else [])
   \<and> (\<forall>z. pz (tpoint t) = Some z \<longrightarrow>
        fst (testRangeDetectionMode h debug True source modeRange (Token tok) t) =
          ((px (tpoint t) - vx source)\<^sup>2 + (py (tpoint t) - vy source)\<^sup>2 +
           (z - elevationZ source)\<^sup>2 \<le> (getLightRadius h modeRange)\<^sup>2))"
  by (simp add: testRangeDetectionMode_def Let_def power2_eq_square)

theorem testRangeDetectionMode_3d_witness:
  "pz (tpoint groundTest) = Some 0
   \<and> fst (testRangeDetectionMode (exampleHost []) False True originSource 5 (Token token10) groundTest)
   \<and> \<not> fst (testRangeDetectionMode (exampleHost []) False True originSource 5 (Token token10) raisedTest)
   \<and> testRangeDetectionMode (exampleHost []) False False originSource 5 (Token token10) groundTest
       = (False, [])"
  using testRangeDetectionMode_3d [of "exampleHost []" False originSource 5 token10 groundTest]
    testRangeDetectionMode_3d [of "exampleHost []" False originSource 5 token10 raisedTest]
  by (simp add: groundTest_def raisedTest_def buildTestObject_def originSource_def exampleHost_def)

subsection \<open>The area test\<close>

lemma areaTest_ratio:
  assumes "los_percent_area st \<noteq> 0"
  shows "fst (areaTest h debug st l c) =
           (let seenArea = area h (fst (intersectConstrainedShapeWithLOS h c l));
                tokenArea = area h c
            in \<not> almostEqual seenArea 0 \<and> \<not> almostEqual tokenArea 0 \<and>
               (seenArea / tokenArea > los_percent_area st \<or>
                almostEqual (seenArea / tokenArea) (los_percent_area st)))"
  using assms by (auto simp add: areaTest_def Let_def almostEqual_def EPSILON_def)

lemma almostEqual_zero_le:
  assumes "0 \<le> a" and "a \<le> b" and "almostEqual b 0"
  shows "almostEqual a 0"
  using assms by (simp add: almostEqual_def)

text \<open>
  C1. With a required fraction p > 0, and with the area of the intersection between 0 and
  the area of the footprint: the area test reports not-visible when the area of the
  intersection is zero within epsilon or the area of the footprint is zero; otherwise it
  reports visible exactly when the ratio of the two areas is greater than p or almost
  equal to p. A footprint of area 100 seen on an area of 50 is visible for p = 0.5.
\<close>

theorem areaTest_fraction:
  assumes "0 < los_percent_area st"
    and "seenArea = area h (fst (intersectConstrainedShapeWithLOS h c l))"
    and "tokenArea = area h c"
    and "0 \<le> seenArea" and "seenArea \<le> tokenArea"
  shows "(if almostEqual seenArea 0 \<or> tokenArea = 0 then \<not> fst (areaTest h debug st l c)
          else fst (areaTest h debug st l c) =
                 (seenArea / tokenArea > los_percent_area st \<or>
                  almostEqual (seenArea / tokenArea) (los_percent_area st)))
         \<and> (tokenArea = 100 \<and> seenArea = 50 \<and> los_percent_area st = 0.5
              \<longrightarrow> fst (areaTest h debug st l c))"
proof -
  have p: "los_percent_area st \<noteq> 0"
    using assms(1) by simp
  have r: "fst (areaTest h debug st l c) =
             (\<not> almostEqual seenArea 0 \<and> \<not> almostEqual tokenArea 0 \<and>
              (seenArea / tokenArea > los_percent_area st \<or>
               almostEqual (seenArea / tokenArea) (los_percent_area st)))"
    using areaTest_ratio [OF p, of h debug l c] assms(2,3) by (simp add: Let_def)
  have z: "almostEqual tokenArea 0 \<Longrightarrow> almostEqual seenArea 0"
    using almostEqual_zero_le [OF assms(4,5)] .
  have t: "tokenArea = 0 \<Longrightarrow> almostEqual tokenArea 0"
    by (simp add: almostEqual_def EPSILON_def)
  have first: "if almostEqual seenArea 0 \<or> tokenArea = 0 then \<not> fst (areaTest h debug st l c)
          else fst (areaTest h debug st l c) =
                 (seenArea / tokenArea > los_percent_area st \<or>
                  almostEqual (seenArea / tokenArea) (los_percent_area st))"
    using r z t by auto
  have second: "tokenArea = 100 \<and> seenArea = 50 \<and> los_percent_area st = 0.5
              \<longrightarrow> fst (areaTest h debug st l c)"
    using r by (simp add: almostEqual_def EPSILON_def)
  from first second show ?thesis by blast
qed

lemma example_areas:
  "area (exampleHost []) (fst (intersectConstrainedShapeWithLOS (exampleHost [])
      (Rectangle footprint10) leftHalf)) = 50"
  "area (exampleHost []) (fst (intersectConstrainedShapeWithLOS (exampleHost [])
      (Rectangle footprint10) leftStrip)) = 49"
  "area (exampleHost []) (Rectangle footprint10) = 100"
  by (simp_all add: exampleHost_def intersectConstrainedShapeWithLOS_def leftHalf_def
      leftStrip_def footprint10_def geometry_simps)

theorem areaTest_fraction_witness:
  "0 < los_percent_area halfSettings
   \<and> area (exampleHost []) (fst (intersectConstrainedShapeWithLOS (exampleHost [])
        (Rectangle footprint10) leftHalf)) = 50
   \<and> area (exampleHost []) (fst (intersectConstrainedShapeWithLOS (exampleHost [])
        (Rectangle footprint10) leftStrip)) = 49
   \<and> area (exampleHost []) (Rectangle footprint10) = 100
   \<and> fst (areaTest (exampleHost []) False halfSettings leftHalf (Rectangle footprint10))
   \<and> \<not> fst (areaTest (exampleHost []) False halfSettings leftStrip (Rectangle footprint10))"
  using
    areaTest_fraction [of halfSettings 50 "exampleHost []" "Rectangle footprint10" leftHalf 100 False]
    areaTest_fraction [of halfSettings 49 "exampleHost []" "Rectangle footprint10" leftStrip 100 False]
  by (simp add: example_areas halfSettings_def almostEqual_def EPSILON_def)

subsection \<open>Line of sight by area: the two short cuts\<close>

text \<open>
  C2. When the required fraction is below 0.5 and the centre point has line of sight,
  the token is visible and nothing else is done: no footprint is built, no shadow and
  no area test is computed, whatever the host. When the required fraction is at least
  0.5 and the centre point has no line of sight, the token is not visible, again with
  nothing else done. So polygons are clipped only when neither case applies.
\<close>

theorem testLOSArea_short_circuit:
  "(hasLOS \<and> los_percent_area st < 0.5
      \<longrightarrow> testLOSArea h debug st source target hasLOS = ((True, target), []))
   \<and> (\<not> hasLOS \<and> los_percent_area st \<ge> 0.5
      \<longrightarrow> testLOSArea h debug st source target hasLOS = ((False, target), []))
   \<and> ((\<exists>l c. IntersectPolygon l c \<in> set (snd (testLOSArea h debug st source target hasLOS)))
      \<longrightarrow> (hasLOS \<and> los_percent_area st \<ge> 0.5) \<or> (\<not> hasLOS \<and> los_percent_area st < 0.5))"
proof -
  have a: "hasLOS \<and> los_percent_area st < 0.5
      \<longrightarrow> testLOSArea h debug st source target hasLOS = ((True, target), [])"
    by (simp add: testLOSArea_def)
  have b: "\<not> hasLOS \<and> los_percent_area st \<ge> 0.5
      \<longrightarrow> testLOSArea h debug st source target hasLOS = ((False, target), [])"
    by (simp add: testLOSArea_def)
  have c: "(\<exists>l c. IntersectPolygon l c \<in> set (snd (testLOSArea h debug st source target hasLOS)))
      \<longrightarrow> (hasLOS \<and> los_percent_area st \<ge> 0.5) \<or> (\<not> hasLOS \<and> los_percent_area st < 0.5)"
  proof (cases "(hasLOS \<and> los_percent_area st < 0.5) \<or> (\<not> hasLOS \<and> los_percent_area st \<ge> 0.5)")
    case True
    then have "snd (testLOSArea h debug st source target hasLOS) = []"
      using a b by auto
    then show ?thesis by simp
  next
    case False
    then show ?thesis by auto
  qed
  from a b c show ?thesis by blast
qed

theorem testLOSArea_short_circuit_witness:
  "los_percent_area thirdSettings < 0.5 \<and> los_percent_area halfSettings \<ge> 0.5
   \<and> testLOSArea (exampleHost []) False thirdSettings originSource token10 True
       = ((True, token10), [])
   \<and> testLOSArea (exampleHost []) False halfSettings originSource token10 False
       = ((False, token10), [])
   \<and> snd (testLOSArea (exampleHost []) False halfSettings originSource token10 True)
       = [GetObjects footprint10,
          IntersectPolygon (Polygon [0, 0, 5, 0, 5, 10, 0, 10]) (Polygon [0, 0, 10, 0, 10, 10, 0, 10])]"
proof -
  have "snd (testLOSArea (exampleHost []) False halfSettings originSource token10 True)
       = [GetObjects footprint10,
          IntersectPolygon (Polygon [0, 0, 5, 0, 5, 10, 0, 10]) (Polygon [0, 0, 10, 0, 10, 10, 0, 10])]"
    by (simp add: testLOSArea_def constrainedTokenShape_def areaTest_def
        intersectConstrainedShapeWithLOS_def Let_def exampleHost_def halfSettings_def
        originSource_def token10_def footprint10_def geometry_simps)
  then show ?thesis
    using testLOSArea_short_circuit [of True thirdSettings "exampleHost []" False originSource token10]
      testLOSArea_short_circuit [of False halfSettings "exampleHost []" False originSource token10]
    by (simp add: thirdSettings_def halfSettings_def)
qed

subsection \<open>The constrained token shape: the fast path\<close>

text \<open>
  C6, as stated, fails: \<open>touchingWall\<close> does not strictly cross the boundary rectangle
  of \<open>token10\<close>, does not lie inside it and is not in line with one of its edges; it
  merely touches the top edge with one endpoint. The rectangle test accepts it all the
  same, the sweep is computed, and the result is the sweep polygon, not the rectangle.
\<close>

theorem constrainedTokenShape_identity_counterexample:
  "getObjects touchingWallHost (bounds token10) = [touchingWall]
   \<and> \<not> strictlyCrossesRectangle (bounds token10) touchingWall
   \<and> \<not> liesInsideRectangle (bounds token10) touchingWall
   \<and> \<not> inLineWithBoundaryEdge (bounds token10) touchingWall
   \<and> onSegment (\<lparr>px = 0, py = 0\<rparr>, \<lparr>px = 10, py = 0\<rparr>) (wallB touchingWall)
   \<and> constrainedTokenShape touchingWallHost token10 (Some 1) =
       (Polygon [0, 0, 5, 0, 10, 0, 10, 10, 0, 10, 0, 0],
        [GetObjects footprint10, SweepCompute \<lparr>px = 5, py = 5\<rparr> footprint10])"
proof -
  have b: "bounds token10 = footprint10"
    by (simp add: token10_def)
  have g: "getObjects touchingWallHost footprint10 = [touchingWall]"
    by (simp add: touchingWallHost_def exampleHost_def touchingWall_def
        footprint10_def wallInRectangle_def geometry_simps)
  have x: "\<not> strictlyCrossesRectangle footprint10 touchingWall"
    by (simp add: strictlyCrossesRectangle_def lineSegmentCrosses_def orient2d_def
        edgesOfPoints_def touchingWall_def footprint10_def geometry_simps)
  have i: "\<not> liesInsideRectangle footprint10 touchingWall"
    by (simp add: liesInsideRectangle_def pointInRectangle_def touchingWall_def footprint10_def
        geometry_simps)
  have l: "\<not> inLineWithBoundaryEdge footprint10 touchingWall"
    by (simp add: inLineWithBoundaryEdge_def touchingWall_def footprint10_def geometry_simps)
  have t: "onSegment (\<lparr>px = 0, py = 0\<rparr>, \<lparr>px = 10, py = 0\<rparr>) (wallB touchingWall)"
    by (simp add: onSegment_def orient2d_def touchingWall_def)
  have q: "qualifyingWalls touchingWallHost footprint10 = [touchingWall]"
    by (simp add: qualifyingWalls_def touchingWallHost_def exampleHost_def touchingWall_def
        footprint10_def wallInRectangle_def rectangleLineSegmentIntersects_def
        pointInRectangle_def edgesOfPoints_def segmentsMeet_def colinearEdges_def orient2d_def
        inLineWithBoundaryEdge_def geometry_simps)
  have c: "constrainedTokenShape touchingWallHost token10 (Some 1) =
       (Polygon [0, 0, 5, 0, 10, 0, 10, 10, 0, 10, 0, 0],
        [GetObjects footprint10, SweepCompute \<lparr>px = 5, py = 5\<rparr> footprint10])"
    using q g
    by (simp add: constrainedTokenShape_def Let_def token10_def)
       (simp add: touchingWallHost_def)
  from g x i l t c show ?thesis
    by (simp add: b)
qed

text \<open>
  C6, amended. With a bounds scale of 1 (given, or left undefined), when none of the
  walls that the quadtree returns for the boundary rectangle qualifies, that is, each of
  them fails the \<open>lineSegmentIntersects\<close> test of the rectangle (with \<open>inside\<close> set and the
  segment test of the host) or is in line with one of its edges, the constrained token
  shape is the boundary rectangle itself, and no sweep is computed. In particular, where
  that test accepts only walls that strictly cross the rectangle or lie inside it, the
  result is the rectangle whenever every wall that strictly crosses it or lies inside it
  is in line with one of its edges.
\<close>

theorem constrainedTokenShape_identity:
  assumes "boundsScale = None \<or> boundsScale = Some 1"
  shows "((\<forall>w \<in> set (getObjects h (bounds tok)).
             \<not> lineSegmentIntersects h (bounds tok) (wallA w) (wallB w)
                 \<lparr>inside = Some True, intersectFn = Some foundry_utils_lineSegmentIntersects\<rparr>
             \<or> inLineWithBoundaryEdge (bounds tok) w)
          \<longrightarrow> constrainedTokenShape h tok boundsScale =
                (Rectangle (bounds tok), [GetObjects (bounds tok)]))
         \<and> ((\<forall>w \<in> set (getObjects h (bounds tok)).
                lineSegmentIntersects h (bounds tok) (wallA w) (wallB w)
                  \<lparr>inside = Some True, intersectFn = Some foundry_utils_lineSegmentIntersects\<rparr>
                \<longrightarrow> strictlyCrossesRectangle (bounds tok) w \<or> liesInsideRectangle (bounds tok) w)
             \<and> (\<forall>w \<in> set (getObjects h (bounds tok)).
                  \<not> (strictlyCrossesRectangle (bounds tok) w \<or> liesInsideRectangle (bounds tok) w)
                  \<or> inLineWithBoundaryEdge (bounds tok) w)
          \<longrightarrow> constrainedTokenShape h tok boundsScale =
                (Rectangle (bounds tok), [GetObjects (bounds tok)]))"
proof -
  have fast: "constrainedTokenShape h tok boundsScale =
                (Rectangle (bounds tok), [GetObjects (bounds tok)])"
    if "\<forall>w \<in> set (getObjects h (bounds tok)).
             \<not> lineSegmentIntersects h (bounds tok) (wallA w) (wallB w)
                 \<lparr>inside = Some True, intersectFn = Some foundry_utils_lineSegmentIntersects\<rparr>
             \<or> inLineWithBoundaryEdge (bounds tok) w"
  proof -
    have "qualifyingWalls h (bounds tok) = []"
      using that by (auto simp add: qualifyingWalls_def filter_empty_conv)
    then show ?thesis
      using assms by (auto simp add: constrainedTokenShape_def Let_def)
  qed
  have strict: "constrainedTokenShape h tok boundsScale =
                (Rectangle (bounds tok), [GetObjects (bounds tok)])"
    if a: "\<forall>w \<in> set (getObjects h (bounds tok)).
                lineSegmentIntersects h (bounds tok) (wallA w) (wallB w)
                  \<lparr>inside = Some True, intersectFn = Some foundry_utils_lineSegmentIntersects\<rparr>
                \<longrightarrow> strictlyCrossesRectangle (bounds tok) w \<or> liesInsideRectangle (bounds tok) w"
      and b: "\<forall>w \<in> set (getObjects h (bounds tok)).
                  \<not> (strictlyCrossesRectangle (bounds tok) w \<or> liesInsideRectangle (bounds tok) w)
                  \<or> inLineWithBoundaryEdge (bounds tok) w"
  proof (rule fast)
    show "\<forall>w \<in> set (getObjects h (bounds tok)).
             \<not> lineSegmentIntersects h (bounds tok) (wallA w) (wallB w)
                 \<lparr>inside = Some True, intersectFn = Some foundry_utils_lineSegmentIntersects\<rparr>
             \<or> inLineWithBoundaryEdge (bounds tok) w"
      using a b by blast
  qed
  from fast strict show ?thesis
    by blast
qed

theorem constrainedTokenShape_identity_witness:
  "getObjects (exampleHost [edgeWall]) (bounds token10) = [edgeWall]
   \<and> inLineWithBoundaryEdge (bounds token10) edgeWall
   \<and> constrainedTokenShape (exampleHost [edgeWall]) token10 (Some 1)
       = (Rectangle footprint10, [GetObjects footprint10])
   \<and> getObjects (strictHost [touchingWall]) (bounds token10) = [touchingWall]
   \<and> \<not> lineSegmentIntersects (strictHost [touchingWall]) (bounds token10)
         (wallA touchingWall) (wallB touchingWall)
         \<lparr>inside = Some True, intersectFn = Some foundry_utils_lineSegmentIntersects\<rparr>
   \<and> constrainedTokenShape (strictHost [touchingWall]) token10 (Some 1)
       = (Rectangle footprint10, [GetObjects footprint10])"
proof -
  have b: "bounds token10 = footprint10"
    by (simp add: token10_def)
  have g: "getObjects (exampleHost [edgeWall]) footprint10 = [edgeWall]"
    by (simp add: exampleHost_def footprint10_def edgeWall_def wallInRectangle_def
        geometry_simps)
  have i: "inLineWithBoundaryEdge footprint10 edgeWall"
    by (simp add: inLineWithBoundaryEdge_def footprint10_def edgeWall_def geometry_simps)
  have g2: "getObjects (strictHost [touchingWall]) footprint10 = [touchingWall]"
    by (simp add: strictHost_def exampleHost_def footprint10_def touchingWall_def
        wallInRectangle_def geometry_simps)
  have x: "\<not> strictlyCrossesRectangle footprint10 touchingWall"
    by (simp add: strictlyCrossesRectangle_def lineSegmentCrosses_def orient2d_def
        edgesOfPoints_def touchingWall_def footprint10_def geometry_simps)
  have n: "\<not> liesInsideRectangle footprint10 touchingWall"
    by (simp add: liesInsideRectangle_def pointInRectangle_def touchingWall_def footprint10_def
        geometry_simps)
  have s: "lineSegmentIntersects (strictHost [touchingWall]) footprint10
             (wallA touchingWall) (wallB touchingWall)
             \<lparr>inside = Some True, intersectFn = Some foundry_utils_lineSegmentIntersects\<rparr>
           = (liesInsideRectangle footprint10 touchingWall
              \<or> strictlyCrossesRectangle footprint10 touchingWall)"
    by (simp add: strictHost_def strictlyCrossesRectangle_def liesInsideRectangle_def)
  note first = constrainedTokenShape_identity [of "Some 1" "exampleHost [edgeWall]" token10,
      THEN conjunct1]
  note second = constrainedTokenShape_identity [of "Some 1" "strictHost [touchingWall]" token10,
      THEN conjunct2]
  have r1: "constrainedTokenShape (exampleHost [edgeWall]) token10 (Some 1)
       = (Rectangle footprint10, [GetObjects footprint10])"
    using first g i by (simp add: b)
  have r2: "constrainedTokenShape (strictHost [touchingWall]) token10 (Some 1)
       = (Rectangle footprint10, [GetObjects footprint10])"
    using second g2 x n s by (simp add: b)
  from g i r1 g2 x n s r2 show ?thesis
    by (simp add: b)
qed

subsection \<open>Shadows\<close>

text \<open>
  C8. When no wall that the quadtree holds for the bounds of the line-of-sight polygon
  has a finite top or a finite bottom, the shadow polygon for an elevation is the
  line-of-sight polygon itself. Otherwise it is what combinePolygonWithShadows makes of
  the line-of-sight polygon and the shadows of the walls that have a finite bound; a wall
  with both bounds infinite is not asked for a shadow.
\<close>

theorem shadowPolygonForElevation_result:
  "((\<forall>w \<in> set (getObjects h (getBounds h (Polygon (los source)))).
        \<not> isFinite (wall_topZ w) \<and> \<not> isFinite (wall_bottomZ w))
      \<longrightarrow> fst (shadowPolygonForElevation h source targetElevation) = Polygon (los source))
   \<and> ((\<exists>w \<in> set (getObjects h (getBounds h (Polygon (los source)))).
        isFinite (wall_topZ w) \<or> isFinite (wall_bottomZ w))
      \<longrightarrow> fst (shadowPolygonForElevation h source targetElevation) =
            combinePolygonWithShadows h (los source)
              (List.map_filter (\<lambda>w. shadowConstruct h w source targetElevation)
                 (filter (\<lambda>w. isFinite (wall_topZ w) \<or> isFinite (wall_bottomZ w))
                    (getObjects h (getBounds h (Polygon (los source)))))))"
proof -
  have c: "collisionTest = (\<lambda>w. isFinite (wall_topZ w) \<or> isFinite (wall_bottomZ w))"
    by (simp add: collisionTest_def fun_eq_iff)
  show ?thesis
    unfolding shadowPolygonForElevation_def Let_def c
    by (auto simp add: filter_empty_conv)
qed

theorem shadowPolygonForElevation_result_witness:
  "getObjects (exampleHost [edgeWall]) (getBounds (exampleHost [edgeWall]) (Polygon (los betweenSource)))
     = [edgeWall]
   \<and> fst (shadowPolygonForElevation (exampleHost [edgeWall]) betweenSource 0)
       = Polygon (los betweenSource)
   \<and> getObjects floatingWallHost (getBounds floatingWallHost (Polygon (los betweenSource)))
       = [floatingWall]
   \<and> isFinite (wall_topZ floatingWall)
   \<and> fst (shadowPolygonForElevation floatingWallHost betweenSource 0)
       = Polygon [- 5, - 20, 10 / 3, - 20, 10 / 3, 6, - 5, 6]"
proof -
  have a: "getObjects (exampleHost [edgeWall])
             (getBounds (exampleHost [edgeWall]) (Polygon (los betweenSource))) = [edgeWall]"
    by (simp add: exampleHost_def betweenSource_def edgeWall_def wallInRectangle_def
        geometry_simps)
  have b: "getObjects floatingWallHost (getBounds floatingWallHost (Polygon (los betweenSource)))
             = [floatingWall]"
    by (simp add: floatingWallHost_def exampleHost_def betweenSource_def floatingWall_def
        wallInRectangle_def geometry_simps)
  have f: "isFinite (wall_topZ floatingWall)" "\<not> isFinite (wall_topZ edgeWall)"
    "\<not> isFinite (wall_bottomZ edgeWall)"
    by (simp_all add: floatingWall_def edgeWall_def)
  have s: "List.map_filter (\<lambda>w. shadowConstruct floatingWallHost w betweenSource 0) [floatingWall]
             = [Rectangle \<lparr>rx = 10 / 3, ry = - 20, width = 80 / 3, height = 26\<rparr>]"
    by (simp add: List.map_filter_def floatingWallHost_def betweenSource_def)
  have k: "combinePolygonWithShadows floatingWallHost (los betweenSource)
             [Rectangle \<lparr>rx = 10 / 3, ry = - 20, width = 80 / 3, height = 26\<rparr>]
           = Polygon [- 5, - 20, 10 / 3, - 20, 10 / 3, 6, - 5, 6]"
    by (simp add: floatingWallHost_def cutAtShadow_def betweenSource_def geometry_simps)
  show ?thesis
    using shadowPolygonForElevation_result [of "exampleHost [edgeWall]" betweenSource 0]
      shadowPolygonForElevation_result [of floatingWallHost betweenSource 0]
      a b f s k
    by simp
qed

subsection \<open>Debug drawing\<close>

lemma areaTest_debug:
  "fst (areaTest h True st l c) = fst (areaTest h False st l c)"
  by (simp add: areaTest_def Let_def)

lemma testLOSArea_debug:
  "fst (testLOSArea h True st source target hasLOS) =
   fst (testLOSArea h False st source target hasLOS)"
  by (simp add: testLOSArea_def Let_def areaTest_debug split: option.splits)

text \<open>
  C9. Two runs of a test on the same inputs, one with the debug flag set and one without,
  return the same result: this holds of the area test, of the range test, of the
  line-of-sight test by area (with the token it leaves) and of the line-of-sight test of
  a detection mode (with the test object and target it leaves). The runs differ in the
  drawing they do only.
\<close>

theorem debug_flag_keeps_results:
  "fst (areaTest h True st l c) = fst (areaTest h False st l c)
   \<and> fst (testRangeDetectionMode h True wrapper source modeRange target t) =
       fst (testRangeDetectionMode h False wrapper source modeRange target t)
   \<and> fst (testLOSArea h True st source tok hasLOS) = fst (testLOSArea h False st source tok hasLOS)
   \<and> fst (testLOSDetectionMode h True st wrapped source target t centerPoint) =
       fst (testLOSDetectionMode h False st wrapped source target t centerPoint)"
proof -
  have range_test: "fst (testRangeDetectionMode h True wrapper source modeRange target t) =
       fst (testRangeDetectionMode h False wrapper source modeRange target t)"
    by (simp add: testRangeDetectionMode_def Let_def)
  have los_test: "fst (testLOSDetectionMode h True st wrapped source target t centerPoint) =
       fst (testLOSDetectionMode h False st wrapped source target t centerPoint)"
    by (simp add: testLOSDetectionMode_def Let_def testLOSArea_debug
        split: option.splits placeable.splits)
  from areaTest_debug testLOSArea_debug range_test los_test show ?thesis
    by blast
qed

theorem debug_flag_keeps_results_witness:
  "areaTest (exampleHost []) True halfSettings leftHalf (Rectangle footprint10) =
     (True, [IntersectPolygon leftHalf (Polygon [0, 0, 10, 0, 10, 10, 0, 10]),
             DrawShape leftHalf blue (Some 2), DrawShape leftHalf green None])
   \<and> fst (areaTest (exampleHost []) False halfSettings leftHalf (Rectangle footprint10))
   \<and> testRangeDetectionMode (exampleHost []) True True originSource 5 (Token token10) raisedTest =
       (False, [GetLightRadius 5, DrawPoint (tpoint raisedTest) red (Some 1) (Some 3)])
   \<and> \<not> fst (testRangeDetectionMode (exampleHost []) False True originSource 5 (Token token10) raisedTest)"
proof -
  have a: "areaTest (exampleHost []) True halfSettings leftHalf (Rectangle footprint10) =
     (True, [IntersectPolygon leftHalf (Polygon [0, 0, 10, 0, 10, 10, 0, 10]),
             DrawShape leftHalf blue (Some 2), DrawShape leftHalf green None])"
    by (simp add: areaTest_def areaTestDebugDrawing_def intersectConstrainedShapeWithLOS_def
        Let_def exampleHost_def halfSettings_def leftHalf_def footprint10_def geometry_simps)
  have r: "testRangeDetectionMode (exampleHost []) True True originSource 5 (Token token10) raisedTest =
       (False, [GetLightRadius 5, DrawPoint (tpoint raisedTest) red (Some 1) (Some 3)])"
    by (simp add: testRangeDetectionMode_def Let_def exampleHost_def originSource_def
        raisedTest_def buildTestObject_def)
  show ?thesis
    using debug_flag_keeps_results [of "exampleHost []" halfSettings leftHalf
        "Rectangle footprint10" True originSource 5 "Token token10" raisedTest token10 True True None]
      a r
    by simp
qed

subsection \<open>Test points\<close>

text \<open>
  C10. For a token, every given test point whose z is undefined gets the elevation
  bottomZ + (topZ - bottomZ) / 2, and nothing else of the test points changes. When the
  token has no height or the range algorithm is not the 3D one, the returned array is the
  array of these test points, with no point added, and nothing is logged.
\<close>

theorem elevatePoints_defaults:
  "(let avgElevation = bottomZ tok + (topZ tok - bottomZ tok) / 2;
        given = fst (fst (elevatePoints st tests (Token tok)));
        returned = snd (fst (elevatePoints st tests (Token tok)))
    in length given = length tests
       \<and> (\<forall>i < length tests.
            given ! i =
              (tests ! i)\<lparr>tpoint := (tpoint (tests ! i))
                 \<lparr>pz := Some (case pz (tpoint (tests ! i)) of None \<Rightarrow> avgElevation | Some z \<Rightarrow> z)\<rparr>\<rparr>)
       \<and> (topZ tok - bottomZ tok = 0 \<or> range_algorithm st \<noteq> RANGE_FOUNDRY_3D
            \<longrightarrow> returned = map Some given \<and> snd (elevatePoints st tests (Token tok)) = []))"
proof -
  have d: "defaultElevation a u =
             u\<lparr>tpoint := (tpoint u)\<lparr>pz := Some (case pz (tpoint u) of None \<Rightarrow> a | Some z \<Rightarrow> z)\<rparr>\<rparr>"
    for a u
    by (simp add: defaultElevation_def split: option.splits)
  show ?thesis
    by (auto simp add: elevatePoints_def Let_def d)
qed

theorem elevatePoints_defaults_witness:
  "elevatePoints halfSettings [centreTest, cornerTest] (Token token10) =
     (([buildTestObject 5 5 5 [], cornerTest], [Some (buildTestObject 5 5 5 []), Some cornerTest]), [])
   \<and> snd (fst (elevatePoints range3dSettings [centreTest, cornerTest] (Token flatToken))) =
       [Some (buildTestObject 5 5 0 []), Some cornerTest]
   \<and> snd (fst (elevatePoints range3dSettings [centreTest, cornerTest] (Token token10))) =
       [Some (buildTestObject 5 5 5 []), Some (buildTestObject 0 0 10 []), Some (buildTestObject 0 0 0 [])]"
proof -
  have a: "elevatePoints halfSettings [centreTest, cornerTest] (Token token10) =
     (([buildTestObject 5 5 5 [], cornerTest], [Some (buildTestObject 5 5 5 []), Some cornerTest]), [])"
    by (simp add: elevatePoints_def defaultElevation_def Let_def halfSettings_def centreTest_def
        cornerTest_def buildTestObject_def token10_def RANGE_FOUNDRY_def RANGE_FOUNDRY_3D_def)
  have b: "snd (fst (elevatePoints range3dSettings [centreTest, cornerTest] (Token token10))) =
       [Some (buildTestObject 5 5 5 []), Some (buildTestObject 0 0 10 []), Some (buildTestObject 0 0 0 [])]"
    by (simp add: elevatePoints_def defaultElevation_def Let_def range3dSettings_def centreTest_def
        cornerTest_def buildTestObject_def token10_def)
  have c: "topZ flatToken - bottomZ flatToken = 0"
    by (simp add: flatToken_def token10_def)
  have g: "fst (fst (elevatePoints range3dSettings [centreTest, cornerTest] (Token flatToken))) =
       [buildTestObject 5 5 0 [], cornerTest]"
    by (simp add: elevatePoints_def defaultElevation_def Let_def centreTest_def
        cornerTest_def buildTestObject_def flatToken_def token10_def)
  show ?thesis
    using elevatePoints_defaults [of flatToken range3dSettings "[centreTest, cornerTest]"] a b c g
    by (simp add: Let_def)
qed

subsection \<open>The constrained token shape: the return to the rectangle\<close>

text \<open>
  C3, as stated, fails: in the scene of \<open>touchingWallHost\<close> every vertex of the sweep
  polygon lies on the edges of the boundary rectangle, and the polygon is returned, not
  the rectangle, because its points array has 12 coordinates and not 10.
\<close>

theorem constrainedTokenShape_collapse_counterexample:
  "list_all (onRectangleEdges (bounds token10))
     (iteratePoints touchingWallHost (compute touchingWallHost (center token10) (bounds token10)))
   \<and> constrainedTokenShape touchingWallHost token10 (Some 1) =
       (Polygon [0, 0, 5, 0, 10, 0, 10, 10, 0, 10, 0, 0],
        [GetObjects footprint10, SweepCompute \<lparr>px = 5, py = 5\<rparr> footprint10])"
proof -
  have q: "qualifyingWalls touchingWallHost footprint10 = [touchingWall]"
    by (simp add: qualifyingWalls_def touchingWallHost_def exampleHost_def touchingWall_def
        footprint10_def wallInRectangle_def rectangleLineSegmentIntersects_def
        pointInRectangle_def edgesOfPoints_def segmentsMeet_def colinearEdges_def orient2d_def
        inLineWithBoundaryEdge_def geometry_simps)
  have g: "getObjects touchingWallHost footprint10 = [touchingWall]"
    by (simp add: touchingWallHost_def exampleHost_def touchingWall_def
        footprint10_def wallInRectangle_def geometry_simps)
  have v: "list_all (onRectangleEdges (bounds token10))
     (iteratePoints touchingWallHost (compute touchingWallHost (center token10) (bounds token10)))"
    by (simp add: touchingWallHost_def exampleHost_def token10_def footprint10_def
        onRectangleEdges_def geometry_simps)
  have c: "constrainedTokenShape touchingWallHost token10 (Some 1) =
       (Polygon [0, 0, 5, 0, 10, 0, 10, 10, 0, 10, 0, 0],
        [GetObjects footprint10, SweepCompute \<lparr>px = 5, py = 5\<rparr> footprint10])"
    using q g
    by (simp add: constrainedTokenShape_def Let_def token10_def)
        (simp add: touchingWallHost_def)
  from v c show ?thesis by simp
qed

text \<open>
  C3, amended. With a bounds scale of 1 and at least one qualifying wall, the constrained
  token shape is the boundary rectangle or the sweep polygon. It is the polygon whenever
  the points array of the polygon does not hold exactly 10 coordinates, also when every
  vertex lies on the edges of the rectangle. It is the rectangle only if the array holds
  exactly 10 coordinates and the x of every vertex is almost equal to the left or to the
  right edge of the rectangle.
\<close>

theorem constrainedTokenShape_collapse:
  assumes "boundsScale = None \<or> boundsScale = Some 1"
    and "qualifyingWalls h (bounds tok) \<noteq> []"
    and "points = compute h (center tok) (bounds tok)"
  shows "(fst (constrainedTokenShape h tok boundsScale) = Rectangle (bounds tok)
          \<or> fst (constrainedTokenShape h tok boundsScale) = Polygon points)
         \<and> (length points \<noteq> 10
              \<longrightarrow> fst (constrainedTokenShape h tok boundsScale) = Polygon points)
         \<and> (fst (constrainedTokenShape h tok boundsScale) = Rectangle (bounds tok)
              \<longrightarrow> length points = 10
                  \<and> (\<forall>pt \<in> set (iteratePoints h points).
                        almostEqual (px pt) (left (bounds tok))
                        \<or> almostEqual (px pt) (right (bounds tok))))"
proof -
  have g: "getObjects h (bounds tok) \<noteq> []"
    using assms(2) by (auto simp add: qualifyingWalls_def)
  have r: "fst (constrainedTokenShape h tok boundsScale) =
             (if length points \<noteq> 10 then Polygon points
              else if list_all (vertexOnBoundary (bounds tok)) (iteratePoints h points)
              then Rectangle (bounds tok) else Polygon points)"
    using assms g by (auto simp add: constrainedTokenShape_def Let_def)
  have v: "list_all (vertexOnBoundary (bounds tok)) (iteratePoints h points)
           \<Longrightarrow> \<forall>pt \<in> set (iteratePoints h points).
                 almostEqual (px pt) (left (bounds tok)) \<or> almostEqual (px pt) (right (bounds tok))"
    by (auto simp add: list_all_iff vertexOnBoundary_def)
  show ?thesis
    using r v by (auto split: if_splits)
qed

theorem constrainedTokenShape_collapse_witness:
  "qualifyingWalls touchingWallHost (bounds token10) = [touchingWall]
   \<and> compute touchingWallHost (center token10) (bounds token10) =
       [0, 0, 5, 0, 10, 0, 10, 10, 0, 10, 0, 0]
   \<and> fst (constrainedTokenShape touchingWallHost token10 (Some 1)) =
       Polygon [0, 0, 5, 0, 10, 0, 10, 10, 0, 10, 0, 0]"
proof -
  have q: "qualifyingWalls touchingWallHost (bounds token10) = [touchingWall]"
    by (simp add: qualifyingWalls_def touchingWallHost_def exampleHost_def touchingWall_def
        token10_def footprint10_def wallInRectangle_def rectangleLineSegmentIntersects_def
        pointInRectangle_def edgesOfPoints_def segmentsMeet_def colinearEdges_def orient2d_def
        inLineWithBoundaryEdge_def geometry_simps)
  have p: "compute touchingWallHost (center token10) (bounds token10) =
       [0, 0, 5, 0, 10, 0, 10, 10, 0, 10, 0, 0]"
    by (simp add: touchingWallHost_def)
  show ?thesis
    using constrainedTokenShape_collapse [of "Some 1" touchingWallHost token10
        "[0, 0, 5, 0, 10, 0, 10, 10, 0, 10, 0, 0]"] q p
    by simp
qed

text \<open>
  With the sweep of \<open>exampleHost\<close>, which returns the closed boundary of the rectangle (10
  coordinates, every vertex a corner), the polygon is returned all the same: the check of
  the corner \<open>(10, 0)\<close> compares its \<open>x\<close> with the top edge.
\<close>

lemma constrainedTokenShape_corners_example:
  "fst (constrainedTokenShape (exampleHost [touchingWall]) token10 (Some 1)) =
     Polygon [0, 0, 10, 0, 10, 10, 0, 10, 0, 0]"
proof -
  have q: "qualifyingWalls (exampleHost [touchingWall]) footprint10 = [touchingWall]"
    by (simp add: qualifyingWalls_def exampleHost_def touchingWall_def
        footprint10_def wallInRectangle_def rectangleLineSegmentIntersects_def
        pointInRectangle_def edgesOfPoints_def segmentsMeet_def colinearEdges_def orient2d_def
        inLineWithBoundaryEdge_def geometry_simps)
  have g: "getObjects (exampleHost [touchingWall]) footprint10 = [touchingWall]"
    by (simp add: exampleHost_def touchingWall_def
        footprint10_def wallInRectangle_def geometry_simps)
  show ?thesis
    using q g
    by (simp add: constrainedTokenShape_def Let_def token10_def)
       (simp add: exampleHost_def footprint10_def vertexOnBoundary_def geometry_simps)
qed

subsection \<open>Line of sight by area: an observer between bottom and top\<close>

lemma floatingWall_footprint:
  "constrainedTokenShape floatingWallHost token10 (Some 1) =
     (Rectangle footprint10, [GetObjects footprint10])"
  by (simp add: constrainedTokenShape_def Let_def floatingWallHost_def exampleHost_def
      token10_def footprint10_def floatingWall_def wallInRectangle_def geometry_simps)

lemma edgeSource_top:
  "shadowPolygonForElevation floatingWallHost edgeSource 10 =
     (Polygon [- 5, - 20, 30, - 20, 30, 5, - 5, 5],
      [Log ''Building shadows.'', GetObjects \<lparr>rx = - 5, ry = - 20, width = 35, height = 25\<rparr>,
       CombinePolygonWithShadows [- 5, - 20, 30, - 20, 30, 5, - 5, 5] []])"
  by (simp add: shadowPolygonForElevation_def Let_def collisionTest_def List.map_filter_def
      floatingWallHost_def exampleHost_def edgeSource_def floatingWall_def cutAtShadow_def
      wallInRectangle_def geometry_simps)

lemma betweenSource_top:
  "shadowPolygonForElevation floatingWallHost betweenSource 10 =
     (Polygon [- 5, - 20, 30, - 20, 30, 6, - 5, 6],
      [Log ''Building shadows.'', GetObjects \<lparr>rx = - 5, ry = - 20, width = 35, height = 26\<rparr>,
       CombinePolygonWithShadows [- 5, - 20, 30, - 20, 30, 6, - 5, 6] []])"
  by (simp add: shadowPolygonForElevation_def Let_def collisionTest_def List.map_filter_def
      floatingWallHost_def exampleHost_def betweenSource_def floatingWall_def cutAtShadow_def
      wallInRectangle_def geometry_simps)

lemma betweenSource_bottom:
  "shadowPolygonForElevation floatingWallHost betweenSource 0 =
     (Polygon [- 5, - 20, 10 / 3, - 20, 10 / 3, 6, - 5, 6],
      [Log ''Building shadows.'', GetObjects \<lparr>rx = - 5, ry = - 20, width = 35, height = 26\<rparr>,
       CombinePolygonWithShadows [- 5, - 20, 30, - 20, 30, 6, - 5, 6]
         [Rectangle \<lparr>rx = 10 / 3, ry = - 20, width = 80 / 3, height = 26\<rparr>]])"
  by (simp add: shadowPolygonForElevation_def Let_def collisionTest_def List.map_filter_def
      floatingWallHost_def exampleHost_def betweenSource_def floatingWall_def cutAtShadow_def
      wallInRectangle_def geometry_simps)

lemma floatingWall_areas:
  "area floatingWallHost (fst (intersectConstrainedShapeWithLOS floatingWallHost
      (Rectangle footprint10) (Polygon [- 5, - 20, 30, - 20, 30, 5, - 5, 5]))) = 50"
  "area floatingWallHost (fst (intersectConstrainedShapeWithLOS floatingWallHost
      (Rectangle footprint10) (Polygon [- 5, - 20, 30, - 20, 30, 6, - 5, 6]))) = 60"
  "area floatingWallHost (fst (intersectConstrainedShapeWithLOS floatingWallHost
      (Rectangle footprint10) (Polygon [- 5, - 20, 10 / 3, - 20, 10 / 3, 6, - 5, 6]))) = 20"
  "area floatingWallHost (Rectangle footprint10) = 100"
  by (simp_all add: intersectConstrainedShapeWithLOS_def floatingWallHost_def exampleHost_def
      footprint10_def geometry_simps)

text \<open>
  C5, as stated, fails on the two short cuts of \<open>testLOSArea\<close>. The observer of
  \<open>betweenSource\<close> and of \<open>edgeSource\<close> is strictly between the bottom and the top of
  \<open>token10\<close>. With a required fraction of 0.3 and line of sight to the centre, the token
  is visible and no shadow polygon is computed. With a required fraction of 0.5 and no
  line of sight to the centre (it lies on the edge of the line-of-sight polygon of
  \<open>edgeSource\<close>), the token is not visible although the area test at the top of the
  token passes.
\<close>

theorem testLOSArea_between_counterexample:
  "elevationZ betweenSource < topZ token10 \<and> elevationZ betweenSource > bottomZ token10
   \<and> testLOSArea floatingWallHost False thirdSettings betweenSource token10 True =
       ((True, token10), [])
   \<and> elevationZ edgeSource < topZ token10 \<and> elevationZ edgeSource > bottomZ token10
   \<and> fst (areaTest floatingWallHost False halfSettings
            (fst (shadowPolygonForElevation floatingWallHost edgeSource (topZ token10)))
            (fst (constrainedTokenShape floatingWallHost token10 (Some 1))))
   \<and> testLOSArea floatingWallHost False halfSettings edgeSource token10 False =
       ((False, token10), [])"
proof -
  have t: "topZ token10 = 10"
    by (simp add: token10_def)
  have a: "fst (areaTest floatingWallHost False halfSettings
            (Polygon [- 5, - 20, 30, - 20, 30, 5, - 5, 5]) (Rectangle footprint10))"
    using areaTest_ratio [of halfSettings floatingWallHost False
        "Polygon [- 5, - 20, 30, - 20, 30, 5, - 5, 5]" "Rectangle footprint10"]
    by (simp add: floatingWall_areas halfSettings_def almostEqual_def EPSILON_def)
  show ?thesis
    using a
    by (simp add: t edgeSource_top floatingWall_footprint)
       (simp add: testLOSArea_def thirdSettings_def halfSettings_def betweenSource_def
         edgeSource_def token10_def)
qed

text \<open>
  C5, amended. When neither short cut applies (the centre has line of sight and the
  required fraction is at least 0.5, or it has none and the fraction is below 0.5) and
  the observer is strictly between the bottom and the top of the target, the shadow
  polygon is computed for the bottom and then for the top of the target, and the target
  is visible exactly when the area test passes at the top or at the bottom; the area
  test at the bottom runs only when the one at the top fails.
\<close>

theorem testLOSArea_between:
  assumes "elevationZ source < topZ target" and "elevationZ source > bottomZ target"
    and "(hasLOS \<and> los_percent_area st \<ge> 0.5) \<or> (\<not> hasLOS \<and> los_percent_area st < 0.5)"
    and "c = (case constrainedTokenShape_cache target of
                Some cached \<Rightarrow> (cached, [])
              | None \<Rightarrow> constrainedTokenShape h target (Some 1))"
    and "shadowLOSTop = shadowPolygonForElevation h source (topZ target)"
    and "shadowLOSBottom = shadowPolygonForElevation h source (bottomZ target)"
    and "atTop = areaTest h debug st (fst shadowLOSTop) (fst c)"
    and "atBottom = areaTest h debug st (fst shadowLOSBottom) (fst c)"
  shows "fst (fst (testLOSArea h debug st source target hasLOS)) = (fst atTop \<or> fst atBottom)
         \<and> snd (testLOSArea h debug st source target hasLOS) =
             snd c @ snd shadowLOSBottom @ snd shadowLOSTop @ snd atTop @
             (if fst atTop then [] else snd atBottom)"
proof (cases hasLOS)
  case True
  then have "\<not> los_percent_area st < 0.5"
    using assms(3) by auto
  then show ?thesis
    using True assms(1,2)
    unfolding assms(4-8) testLOSArea_def Let_def
    by (simp split: option.splits)
next
  case False
  then have "\<not> los_percent_area st \<ge> 0.5"
    using assms(3) by auto
  then show ?thesis
    using False assms(1,2)
    unfolding assms(4-8) testLOSArea_def Let_def
    by (simp split: option.splits)
qed

theorem testLOSArea_between_witness:
  "elevationZ betweenSource < topZ token10 \<and> elevationZ betweenSource > bottomZ token10
   \<and> los_percent_area halfSettings \<ge> 0.5
   \<and> area floatingWallHost (Rectangle footprint10) = 100
   \<and> area floatingWallHost (fst (intersectConstrainedShapeWithLOS floatingWallHost
        (Rectangle footprint10)
        (fst (shadowPolygonForElevation floatingWallHost betweenSource (topZ token10))))) = 60
   \<and> area floatingWallHost (fst (intersectConstrainedShapeWithLOS floatingWallHost
        (Rectangle footprint10)
        (fst (shadowPolygonForElevation floatingWallHost betweenSource (bottomZ token10))))) = 20
   \<and> fst (fst (testLOSArea floatingWallHost False halfSettings betweenSource token10 True))"
proof -
  have t: "topZ token10 = 10" "bottomZ token10 = 0" "constrainedTokenShape_cache token10 = None"
    by (simp_all add: token10_def)
  have e: "elevationZ betweenSource = 5"
    by (simp add: betweenSource_def)
  have p: "los_percent_area halfSettings = 0.5"
    by (simp add: halfSettings_def)
  have a: "fst (areaTest floatingWallHost False halfSettings
            (Polygon [- 5, - 20, 30, - 20, 30, 6, - 5, 6]) (Rectangle footprint10))"
    using areaTest_ratio [of halfSettings floatingWallHost False
        "Polygon [- 5, - 20, 30, - 20, 30, 6, - 5, 6]" "Rectangle footprint10"]
    by (simp add: floatingWall_areas halfSettings_def almostEqual_def EPSILON_def)
  show ?thesis
    using testLOSArea_between [of betweenSource token10 True halfSettings
        "constrainedTokenShape floatingWallHost token10 (Some 1)" floatingWallHost
        "shadowPolygonForElevation floatingWallHost betweenSource 10"
        "shadowPolygonForElevation floatingWallHost betweenSource 0"
        "areaTest floatingWallHost False halfSettings
           (Polygon [- 5, - 20, 30, - 20, 30, 6, - 5, 6]) (Rectangle footprint10)"
        False
        "areaTest floatingWallHost False halfSettings
           (Polygon [- 5, - 20, 10 / 3, - 20, 10 / 3, 6, - 5, 6]) (Rectangle footprint10)"]
      a
    by (simp add: t e p betweenSource_top betweenSource_bottom floatingWall_footprint
        floatingWall_areas)
qed

subsection \<open>The area test with no required fraction\<close>






end
